theory Spec2Isabelle
  imports Main
begin

section \<open>JavaScript values\<close>

text \<open>
  Values as they arrive in a request body or in the payload of a decoded token. An array
  or an object carries the address it lives at: JavaScript compares the two by reference,
  so two arrays with the same elements are different values.
\<close>

datatype jsval =
    JUndefined
  | JNull
  | JBool bool
  | JNum int
  | JStr string
  | JArray nat "jsval list"
  | JObject nat "(string \<times> jsval) list"

text \<open>The comparison behind \<^verbatim>\<open>Array.prototype.includes\<close> (SameValueZero).\<close>

fun sameValueZero :: "jsval \<Rightarrow> jsval \<Rightarrow> bool" where
  "sameValueZero JUndefined JUndefined = True"
| "sameValueZero JNull JNull = True"
| "sameValueZero (JBool a) (JBool b) = (a = b)"
| "sameValueZero (JNum a) (JNum b) = (a = b)"
| "sameValueZero (JStr a) (JStr b) = (a = b)"
| "sameValueZero (JArray r xs) (JArray r' ys) = (r = r')"
| "sameValueZero (JObject r xs) (JObject r' ys) = (r = r')"
| "sameValueZero x y = False"

text \<open>\<^verbatim>\<open>typeof v\<close>\<close>

fun js_typeof :: "jsval \<Rightarrow> string" where
  "js_typeof JUndefined = ''undefined''"
| "js_typeof JNull = ''object''"
| "js_typeof (JBool b) = ''boolean''"
| "js_typeof (JNum n) = ''number''"
| "js_typeof (JStr s) = ''string''"
| "js_typeof (JArray r xs) = ''object''"
| "js_typeof (JObject r kvs) = ''object''"

definition js_includes :: "jsval list \<Rightarrow> jsval \<Rightarrow> bool" where
  "js_includes xs v = list_ex (\<lambda>x. sameValueZero x v) xs"

text \<open>\<^verbatim>\<open>s.startsWith(p)\<close> and \<^verbatim>\<open>s.split(c)\<close> for a one-character separator.\<close>

definition startsWith :: "string \<Rightarrow> string \<Rightarrow> bool" where
  "startsWith s p = (take (length p) s = p)"

fun split_on :: "char \<Rightarrow> string \<Rightarrow> string list" where
  "split_on c [] = [[]]"
| "split_on c (x # xs) =
     (if x = c then [] # split_on c xs
      else (case split_on c xs of [] \<Rightarrow> [[x]] | w # ws \<Rightarrow> (x # w) # ws))"

text \<open>\<^verbatim>\<open>xs[1]\<close>: the second element, \<^verbatim>\<open>undefined\<close> when there is none.\<close>

fun index1 :: "'a list \<Rightarrow> 'a option" where
  "index1 (x # y # ys) = Some y"
| "index1 xs = None"

section \<open>Responses and errors\<close>

text \<open>The JSON a response body is serialised from.\<close>

datatype json =
    JsNull
  | JsBool bool
  | JsNum int
  | JsStr string
  | JsArr "json list"
  | JsObj "(string \<times> json) list"

record response =
  res_status :: nat
  res_body :: json

text \<open>The value under a key of a JSON object, and the keys of one.\<close>

fun json_get :: "string \<Rightarrow> json \<Rightarrow> json option" where
  "json_get k (JsObj kvs) = map_of kvs k"
| "json_get k v = None"

fun json_keys :: "json \<Rightarrow> string list" where
  "json_keys (JsObj kvs) = map fst kvs"
| "json_keys v = []"

text \<open>The uniform error body: exactly \<^verbatim>\<open>{ success: false, message: <string> }\<close>.\<close>

fun uniform_error_body :: "json \<Rightarrow> bool" where
  "uniform_error_body (JsObj [(k, JsBool b), (k', JsStr m)]) =
     (k = ''success'' \<and> \<not> b \<and> k' = ''message'')"
| "uniform_error_body v = False"

text \<open>
  utils/customError.js: an \<^verbatim>\<open>Error\<close> with a status code. An error thrown by a
  library (the store, bcrypt) is an \<^verbatim>\<open>Error\<close> without one.
\<close>

record js_error =
  err_message :: string
  err_statusCode :: "nat option"

definition CustomError :: "string \<Rightarrow> nat \<Rightarrow> js_error" where
  "CustomError msg code = \<lparr>err_message = msg, err_statusCode = Some code\<rparr>"

definition LibraryError :: "string \<Rightarrow> js_error" where
  "LibraryError msg = \<lparr>err_message = msg, err_statusCode = None\<rparr>"

text \<open>
  middleware/errorHandler.js. \<^verbatim>\<open>err.statusCode || 500\<close> and
  \<^verbatim>\<open>err.message || '...'\<close>: a missing code, the code 0 and the empty message
  are falsy and take the default.
\<close>

definition errorHandler :: "js_error \<Rightarrow> response" where
  "errorHandler err =
     \<lparr>res_status =
        (case err_statusCode err of
           None \<Rightarrow> 500
         | Some c \<Rightarrow> if c = 0 then 500 else c),
      res_body = JsObj
        [(''success'', JsBool False),
         (''message'', JsStr (if err_message err = [] then ''Something went wrong on the server!''
                              else err_message err))]\<rparr>"

text \<open>
  What a middleware does with a request: \<^verbatim>\<open>next()\<close> with the request as it left
  it, \<^verbatim>\<open>next(err)\<close>, or a response of its own. A handler ends in one of the last
  two; index.js registers \<open>errorHandler\<close> after all routes, so an error passed to
  \<^verbatim>\<open>next\<close> is answered by it.
\<close>

datatype 'a outcome = Next 'a | NextErr js_error | Respond response

fun bind_outcome :: "'a outcome \<Rightarrow> ('a \<Rightarrow> 'b outcome) \<Rightarrow> 'b outcome" where
  "bind_outcome (Next r) f = f r"
| "bind_outcome (NextErr e) f = NextErr e"
| "bind_outcome (Respond r) f = Respond r"

fun sent :: "response outcome \<Rightarrow> response" where
  "sent (Next r) = r"
| "sent (NextErr e) = errorHandler e"
| "sent (Respond r) = r"

section \<open>Libraries and environment\<close>

text \<open>The payload of a token: what the routes sign, with the two times the library adds.\<close>

record claims =
  userId :: string
  role :: jsval
  iat :: nat
  exp :: nat

record jwt =
  jwt_payload :: claims
  jwt_signature :: string

text \<open>
  The functions of the libraries the code calls, taken as parameters: bcryptjs
  (\<open>bcrypt_hash password salt\<close>, \<open>bcrypt_compare password hash\<close>), the keyed
  signature of jsonwebtoken over a payload, the compact serialisation of a token and its
  parser, express-validator's \<^verbatim>\<open>isEmail\<close>, and the store's case-insensitive
  \<^verbatim>\<open>$regex\<close> match (\<open>regex_test pattern text\<close>).
\<close>

record libs =
  bcrypt_hash :: "string \<Rightarrow> string \<Rightarrow> string"
  bcrypt_compare :: "string \<Rightarrow> string \<Rightarrow> bool"
  hmac :: "string \<Rightarrow> claims \<Rightarrow> string"
  jwt_encode :: "jwt \<Rightarrow> string"
  jwt_decode :: "string \<Rightarrow> jwt option"
  isEmail :: "string \<Rightarrow> bool"
  regex_test :: "string \<Rightarrow> string \<Rightarrow> bool"

text \<open>\<^verbatim>\<open>process.env.JWT_SECRET\<close> and the clock, in seconds.\<close>

record env =
  JWT_SECRET :: string
  clock :: nat

section \<open>Token Service\<close>

datatype jwt_error = JsonWebTokenError | TokenExpiredError

text \<open>
  \<^verbatim>\<open>jwt.sign(payload, secret, { expiresIn: '1h' })\<close>: the payload with the issue time
  and the expiry one hour later, signed under the secret.
\<close>

definition jwt_sign :: "libs \<Rightarrow> env \<Rightarrow> string \<Rightarrow> jsval \<Rightarrow> jwt" where
  "jwt_sign L E uid r =
     (let payload = \<lparr>userId = uid, role = r, iat = clock E, exp = clock E + 3600\<rparr>
      in \<lparr>jwt_payload = payload, jwt_signature = hmac L (JWT_SECRET E) payload\<rparr>)"

text \<open>
  \<^verbatim>\<open>jwt.verify(token, secret)\<close>: the signature is recomputed and compared, then the
  expiry is checked against the clock (a token is expired from its expiry second on).
\<close>

definition jwt_verify :: "libs \<Rightarrow> env \<Rightarrow> jwt \<Rightarrow> jwt_error + claims" where
  "jwt_verify L E t =
     (if jwt_signature t \<noteq> hmac L (JWT_SECRET E) (jwt_payload t) then Inl JsonWebTokenError
      else if exp (jwt_payload t) \<le> clock E then Inl TokenExpiredError
      else Inr (jwt_payload t))"

text \<open>The same on the string a client presents; no string, or one that does not parse, fails.\<close>

definition jwt_verify_string :: "libs \<Rightarrow> env \<Rightarrow> string option \<Rightarrow> jwt_error + claims" where
  "jwt_verify_string L E s =
     (case s of
        None \<Rightarrow> Inl JsonWebTokenError
      | Some str \<Rightarrow>
          (case jwt_decode L str of
             None \<Rightarrow> Inl JsonWebTokenError
           | Some t \<Rightarrow> jwt_verify L E t))"

section \<open>Auth Gate and Role Gate\<close>

text \<open>The parts of a request the middleware reads and writes.\<close>

record request =
  authorization :: "string option"
  user :: "claims option"

text \<open>middleware/auth.js, and its two responses.\<close>

definition no_token :: response where
  "no_token =
     \<lparr>res_status = 401, res_body = JsObj [(''msg'', JsStr ''No token, authorization denied'')]\<rparr>"

definition token_invalid :: response where
  "token_invalid =
     \<lparr>res_status = 401, res_body = JsObj [(''msg'', JsStr ''Token is not valid'')]\<rparr>"

definition authMiddleware :: "libs \<Rightarrow> env \<Rightarrow> request \<Rightarrow> request outcome" where
  "authMiddleware L E req =
     (case authorization req of
        None \<Rightarrow> Respond no_token
      | Some authHeader \<Rightarrow>
          if authHeader = [] \<or> \<not> startsWith authHeader ''Bearer '' then Respond no_token
          else
            (let token = index1 (split_on CHR '' '' authHeader) in
             case jwt_verify_string L E token of
               Inr decoded \<Rightarrow> Next (req\<lparr>user := Some decoded\<rparr>)
             | Inl err \<Rightarrow> Respond token_invalid))"

text \<open>
  Reading \<^verbatim>\<open>req.user.role\<close> with no \<^verbatim>\<open>req.user\<close> throws a TypeError, which
  Express passes to the error handler.
\<close>

definition no_user_error :: js_error where
  "no_user_error = LibraryError ''Cannot read properties of undefined''"

text \<open>middleware/authorize.js: \<^verbatim>\<open>authorize(...allowedRoles)\<close>, the list of its arguments.\<close>

definition authorize :: "jsval list \<Rightarrow> request \<Rightarrow> request outcome" where
  "authorize allowedRoles req =
     (case user req of
        None \<Rightarrow> NextErr no_user_error
      | Some u \<Rightarrow>
          if \<not> js_includes allowedRoles (role u) then
            NextErr (CustomError ''Access denied: insufficient role'' 403)
          else Next req)"

text \<open>middleware/roleMiddleware.js: \<^verbatim>\<open>authorizeRoles(...allowedRoles)\<close>.\<close>

definition authorizeRoles :: "jsval list \<Rightarrow> request \<Rightarrow> request outcome" where
  "authorizeRoles allowedRoles req =
     (case user req of
        None \<Rightarrow> NextErr no_user_error
      | Some u \<Rightarrow>
          (let userRole = role u in
           if \<not> js_includes allowedRoles userRole then
             Respond \<lparr>res_status = 403,
                      res_body = JsObj [(''message'', JsStr ''Access denied: Unauthorized role'')]\<rparr>
           else Next req))"

text \<open>
  The job routes with the role gate register it as
  \<^verbatim>\<open>authorize(['recruiter', 'admin'])\<close>: one argument, an array literal (at the
  address \<open>a\<close>).
\<close>

definition jobs_post_allowedRoles :: "nat \<Rightarrow> jsval list" where
  "jobs_post_allowedRoles a = [JArray a [JStr ''recruiter'', JStr ''admin'']]"

section \<open>Credential Store\<close>

text \<open>
  models/User.js. The schema's types: every stored field is a string, the role one of
  three. Strings are byte strings here, and the character classes below are the ASCII ones.
\<close>

record user_doc =
  u_id :: string
  u_name :: string
  u_email :: string
  u_password :: string
  u_role :: string

definition js_isspace :: "char \<Rightarrow> bool" where
  "js_isspace c = (c \<in> set [CHR '' '', CHR 0x09, CHR 0x0A, CHR 0x0B, CHR 0x0C, CHR 0x0D])"

definition js_trim :: "string \<Rightarrow> string" where
  "js_trim s = rev (dropWhile js_isspace (rev (dropWhile js_isspace s)))"

definition lower_char :: "char \<Rightarrow> char" where
  "lower_char c =
     (case map_of (zip ''ABCDEFGHIJKLMNOPQRSTUVWXYZ'' ''abcdefghijklmnopqrstuvwxyz'') c of
        Some d \<Rightarrow> d
      | None \<Rightarrow> c)"

definition toLowerCase :: "string \<Rightarrow> string" where
  "toLowerCase s = map lower_char s"

text \<open>The setters of the \<open>email\<close> path (\<^verbatim>\<open>lowercase: true, trim: true\<close>).\<close>

definition email_setters :: "string \<Rightarrow> string" where
  "email_setters e = toLowerCase (js_trim e)"

text \<open>
  \<^verbatim>\<open>new User({ name, email, password, role })\<close> with the identifier the driver
  generates: the schema's setters run on assignment.
\<close>

definition new_User :: "string \<Rightarrow> string \<Rightarrow> string \<Rightarrow> string \<Rightarrow> string \<Rightarrow> user_doc" where
  "new_User oid n e p r =
     \<lparr>u_id = oid, u_name = js_trim n, u_email = email_setters e, u_password = p, u_role = r\<rparr>"

text \<open>The schema's validators: the three required paths, \<^verbatim>\<open>minlength: 6\<close>, the role's enum.\<close>

definition User_validate :: "user_doc \<Rightarrow> bool" where
  "User_validate u =
     (u_name u \<noteq> [] \<and> u_email u \<noteq> [] \<and> 6 \<le> length (u_password u)
      \<and> u_role u \<in> set [''admin'', ''recruiter'', ''candidate''])"

text \<open>
  \<^verbatim>\<open>UserSchema.pre('save')\<close> on a new document (its password counts as modified):
  the password is replaced by its hash under a fresh salt.
\<close>

definition pre_save :: "libs \<Rightarrow> string \<Rightarrow> user_doc \<Rightarrow> user_doc" where
  "pre_save L salt u = u\<lparr>u_password := bcrypt_hash L (u_password u) salt\<rparr>"

text \<open>
  \<^verbatim>\<open>newUser.save()\<close>: validation, then the hook, then the insert, which the unique
  index on \<open>email\<close> refuses for an address already stored. Both failures are errors
  of the store's own, without a status code.
\<close>

definition User_save ::
  "libs \<Rightarrow> string \<Rightarrow> user_doc \<Rightarrow> user_doc list \<Rightarrow> js_error + (user_doc \<times> user_doc list)" where
  "User_save L salt u st =
     (if \<not> User_validate u then Inl (LibraryError ''User validation failed'')
      else
        (let u' = pre_save L salt u in
         if list_ex (\<lambda>x. u_email x = u_email u') st then
           Inl (LibraryError ''E11000 duplicate key error'')
         else Inr (u', st @ [u'])))"

text \<open>\<^verbatim>\<open>User.findOne({ email })\<close>: the path's setters run on the filter as well.\<close>

definition User_findOne :: "string \<Rightarrow> user_doc list \<Rightarrow> user_doc option" where
  "User_findOne e st = find (\<lambda>u. u_email u = email_setters e) st"

text \<open>
  \<^verbatim>\<open>await bcrypt.compare(s, hash)\<close> against a stored hash: the library compares
  strings only, and rejects with an error of its own when \<open>s\<close> is anything else
  (an absent password is \<^verbatim>\<open>undefined\<close>).
\<close>

definition bcrypt_compare_js :: "libs \<Rightarrow> jsval \<Rightarrow> string \<Rightarrow> js_error + bool" where
  "bcrypt_compare_js L s hash =
     (case s of
        JStr p \<Rightarrow> Inr (bcrypt_compare L p hash)
      | _ \<Rightarrow> Inl (LibraryError (''Illegal arguments: '' @ js_typeof s @ '', string'')))"

text \<open>\<^verbatim>\<open>user.matchPassword(enteredPassword)\<close>\<close>

definition matchPassword :: "libs \<Rightarrow> user_doc \<Rightarrow> jsval \<Rightarrow> js_error + bool" where
  "matchPassword L u enteredPassword = bcrypt_compare_js L enteredPassword (u_password u)"

section \<open>Auth routes\<close>

text \<open>
  The body of a signup: name, address and password are strings (its validators refuse an
  absent field as they refuse the empty string); the requested role is any value, absent
  included. The body of a login, which no validator reads first: the address is a
  string, the password is any value, absent included.
\<close>

record signup_body =
  sb_name :: string
  sb_email :: string
  sb_password :: string
  sb_role :: jsval

record login_body =
  lb_email :: string
  lb_password :: jsval

text \<open>The three checks of express-validator in front of both signup handlers.\<close>

definition signup_valid :: "libs \<Rightarrow> signup_body \<Rightarrow> bool" where
  "signup_valid L b = (sb_name b \<noteq> [] \<and> isEmail L (sb_email b) \<and> 6 \<le> length (sb_password b))"

text \<open>
  \<^verbatim>\<open>allowedRoles.includes(role) ? role : 'candidate'\<close>. A value the list includes is
  one of its two strings; \<open>str_of\<close> reads it.
\<close>

fun str_of :: "jsval \<Rightarrow> string" where
  "str_of (JStr s) = s"
| "str_of v = []"

definition assignedRole :: "jsval \<Rightarrow> string" where
  "assignedRole r =
     (if js_includes [JStr ''candidate'', JStr ''recruiter''] r then str_of r else ''candidate'')"

definition user_json :: "user_doc \<Rightarrow> json" where
  "user_json u = JsObj
     [(''id'', JsStr (u_id u)), (''name'', JsStr (u_name u)),
      (''email'', JsStr (u_email u)), (''role'', JsStr (u_role u))]"

text \<open>
  The token the routes issue for a stored identity. The role-aware routes sign
  \<^verbatim>\<open>{ userId: user._id, role: user.role }\<close>; the login of src/routes/auth.js signs
  \<^verbatim>\<open>{ userId: user._id }\<close>, so the payload has no role.
\<close>

definition issue_role :: "libs \<Rightarrow> env \<Rightarrow> user_doc \<Rightarrow> jwt" where
  "issue_role L E u = jwt_sign L E (u_id u) (JStr (u_role u))"

definition issue_id :: "libs \<Rightarrow> env \<Rightarrow> user_doc \<Rightarrow> jwt" where
  "issue_id L E u = jwt_sign L E (u_id u) JUndefined"

text \<open>
  The signup and login handlers that know roles (the second routes/auth.js, under
  unnamed): the password is hashed by the model's hook, the token carries the
  identifier and the role. \<open>oid\<close> is the fresh identifier, \<open>salt\<close> the hook's salt.
\<close>

definition signup_token ::
  "libs \<Rightarrow> env \<Rightarrow> string \<Rightarrow> string \<Rightarrow> signup_body \<Rightarrow> user_doc list
     \<Rightarrow> response outcome \<times> user_doc list" where
  "signup_token L E oid salt b st =
     (if \<not> signup_valid L b then (NextErr (CustomError ''Validation failed'' 400), st)
      else
        (case User_findOne (sb_email b) st of
           Some existingUser \<Rightarrow> (NextErr (CustomError ''User already exists'' 400), st)
         | None \<Rightarrow>
             (case User_save L salt
                     (new_User oid (sb_name b) (sb_email b) (sb_password b)
                        (assignedRole (sb_role b))) st of
                Inl err \<Rightarrow> (NextErr err, st)
              | Inr (newUser, st') \<Rightarrow>
                  (let token = issue_role L E newUser in
                   (Respond \<lparr>res_status = 201,
                             res_body = JsObj [(''token'', JsStr (jwt_encode L token)),
                                               (''user'', user_json newUser)]\<rparr>,
                    st')))))"

definition login_token ::
  "libs \<Rightarrow> env \<Rightarrow> login_body \<Rightarrow> user_doc list \<Rightarrow> response outcome" where
  "login_token L E b st =
     (case User_findOne (lb_email b) st of
        None \<Rightarrow> NextErr (CustomError ''Invalid credentials'' 400)
      | Some u \<Rightarrow>
          (case matchPassword L u (lb_password b) of
             Inl err \<Rightarrow> NextErr err
           | Inr isMatch \<Rightarrow>
               if \<not> isMatch then NextErr (CustomError ''Invalid credentials'' 400)
               else
                 (let token = issue_role L E u in
                  Respond \<lparr>res_status = 200,
                           res_body = JsObj [(''token'', JsStr (jwt_encode L token)),
                                             (''user'', user_json u)]\<rparr>)))"

text \<open>
  The handlers of src/routes/auth.js: signup hashes the password itself
  (\<^verbatim>\<open>bcrypt.hash(password, 10)\<close>, with a salt of its own) before it builds the
  document, names no role (the schema's default applies) and answers with a message; login
  signs the identifier alone. In both logins a rejection of the comparison is caught and
  passed to \<^verbatim>\<open>next\<close>.
\<close>

definition signup_msg ::
  "libs \<Rightarrow> string \<Rightarrow> string \<Rightarrow> string \<Rightarrow> signup_body \<Rightarrow> user_doc list
     \<Rightarrow> response outcome \<times> user_doc list" where
  "signup_msg L oid salt salt' b st =
     (if \<not> signup_valid L b then (NextErr (CustomError ''Validation failed'' 400), st)
      else
        (case User_findOne (sb_email b) st of
           Some existingUser \<Rightarrow> (NextErr (CustomError ''User already exists'' 400), st)
         | None \<Rightarrow>
             (let hashedPassword = bcrypt_hash L (sb_password b) salt in
              case User_save L salt'
                     (new_User oid (sb_name b) (sb_email b) hashedPassword ''candidate'') st of
                Inl err \<Rightarrow> (NextErr err, st)
              | Inr (newUser, st') \<Rightarrow>
                  (Respond \<lparr>res_status = 201,
                            res_body = JsObj [(''msg'', JsStr ''User registered successfully'')]\<rparr>,
                   st'))))"

definition login_id ::
  "libs \<Rightarrow> env \<Rightarrow> login_body \<Rightarrow> user_doc list \<Rightarrow> response outcome" where
  "login_id L E b st =
     (case User_findOne (lb_email b) st of
        None \<Rightarrow> NextErr (CustomError ''Invalid credentials'' 400)
      | Some u \<Rightarrow>
          (case bcrypt_compare_js L (lb_password b) (u_password u) of
             Inl err \<Rightarrow> NextErr err
           | Inr isMatch \<Rightarrow>
               if \<not> isMatch then NextErr (CustomError ''Invalid credentials'' 400)
               else
                 (let token = issue_id L E u in
                  Respond \<lparr>res_status = 200,
                           res_body = JsObj
                             [(''token'', JsStr (jwt_encode L token)),
                              (''user'', JsObj [(''id'', JsStr (u_id u)),
                                                (''name'', JsStr (u_name u)),
                                                (''email'', JsStr (u_email u))])]\<rparr>)))"

section \<open>Job Store\<close>

text \<open>
  Modelled from the spec: the job document, whose schema (models/Job.js) is not among the
  sources. Its paths are the ones the routes and the seeding script assign: identifier,
  title, company, description, location, an optional numeric salary, the owner reference
  \<open>user\<close>, and the creation time the list is sorted by. Identifiers are well-formed
  and saving a document that passed the route's validators succeeds.
\<close>

record job_doc =
  j_id :: string
  j_title :: string
  j_company :: string
  j_description :: string
  j_location :: string
  j_salary :: "int option"
  j_user :: string
  j_createdAt :: nat

definition job_json :: "job_doc \<Rightarrow> json" where
  "job_json j = JsObj
     ([(''_id'', JsStr (j_id j)), (''title'', JsStr (j_title j)),
       (''company'', JsStr (j_company j)), (''description'', JsStr (j_description j)),
       (''location'', JsStr (j_location j))]
      @ (case j_salary j of None \<Rightarrow> [] | Some n \<Rightarrow> [(''salary'', JsNum n)])
      @ [(''user'', JsStr (j_user j)), (''createdAt'', JsNum (int (j_createdAt j)))])"

text \<open>\<^verbatim>\<open>Job.findOne({ _id: id, user: uid })\<close>\<close>

definition Job_findOne :: "string \<Rightarrow> string \<Rightarrow> job_doc list \<Rightarrow> job_doc option" where
  "Job_findOne jid uid st = find (\<lambda>j. j_id j = jid \<and> j_user j = uid) st"

text \<open>
  \<^verbatim>\<open>Job.findOneAndDelete({ _id: id, user: uid })\<close>: the first match is removed
  and returned.
\<close>

fun Job_findOneAndDelete ::
  "string \<Rightarrow> string \<Rightarrow> job_doc list \<Rightarrow> job_doc option \<times> job_doc list" where
  "Job_findOneAndDelete jid uid [] = (None, [])"
| "Job_findOneAndDelete jid uid (j # js) =
     (if j_id j = jid \<and> j_user j = uid then (Some j, js)
      else (case Job_findOneAndDelete jid uid js of (r, js') \<Rightarrow> (r, j # js')))"

text \<open>\<^verbatim>\<open>job.save()\<close> on a document read from the store: it replaces the stored one.\<close>

definition Job_save :: "job_doc \<Rightarrow> job_doc list \<Rightarrow> job_doc list" where
  "Job_save job st = map (\<lambda>j. if j_id j = j_id job then job else j) st"

text \<open>
  Every handler reads \<^verbatim>\<open>req.user.userId\<close> inside its \<^verbatim>\<open>try\<close>; without
  \<^verbatim>\<open>req.user\<close> the TypeError goes to \<^verbatim>\<open>next\<close>.
\<close>

text \<open>\<^verbatim>\<open>router.get('/:id', auth, ...)\<close>: the handler.\<close>

definition get_job :: "request \<Rightarrow> string \<Rightarrow> job_doc list \<Rightarrow> response outcome" where
  "get_job req jid st =
     (case user req of
        None \<Rightarrow> NextErr no_user_error
      | Some u \<Rightarrow>
          (case Job_findOne jid (userId u) st of
             None \<Rightarrow> NextErr (CustomError ''Job not found'' 404)
           | Some job \<Rightarrow> Respond \<lparr>res_status = 200, res_body = job_json job\<rparr>))"

text \<open>\<^verbatim>\<open>router.delete('/:id', auth, ...)\<close>: the handler.\<close>

definition delete_job ::
  "request \<Rightarrow> string \<Rightarrow> job_doc list \<Rightarrow> response outcome \<times> job_doc list" where
  "delete_job req jid st =
     (case user req of
        None \<Rightarrow> (NextErr no_user_error, st)
      | Some u \<Rightarrow>
          (case Job_findOneAndDelete jid (userId u) st of
             (None, st') \<Rightarrow> (NextErr (CustomError ''Job not found'' 404), st')
           | (Some job, st') \<Rightarrow>
               (Respond \<lparr>res_status = 200,
                         res_body = JsObj [(''msg'', JsStr ''Job deleted successfully'')]\<rparr>,
                st')))"

text \<open>
  \<^verbatim>\<open>check('salary', ...).optional().isNumeric()\<close> on a number whose value is an
  integer: the validator reads \<^verbatim>\<open>String(n)\<close>, which is a signed row of digits below
  \<open>10^21\<close> in absolute value and exponent notation, which it refuses, from there on.
\<close>

definition salary_isNumeric :: "int \<Rightarrow> bool" where
  "salary_isNumeric n = (\<bar>n\<bar> < 10 ^ 21)"

text \<open>
  The body of an update: each text field a string when present, the salary a number with
  an integer value when present. The validators are optional: they check a field only
  when the body has it.
\<close>

record job_update =
  up_title :: "string option"
  up_company :: "string option"
  up_description :: "string option"
  up_location :: "string option"
  up_salary :: "int option"

definition update_valid :: "job_update \<Rightarrow> bool" where
  "update_valid b =
     ((case up_title b of None \<Rightarrow> True | Some t \<Rightarrow> t \<noteq> [])
      \<and> (case up_company b of None \<Rightarrow> True | Some c \<Rightarrow> c \<noteq> [])
      \<and> (case up_description b of None \<Rightarrow> True | Some d \<Rightarrow> 10 \<le> length d)
      \<and> (case up_location b of None \<Rightarrow> True | Some l \<Rightarrow> l \<noteq> [])
      \<and> (case up_salary b of None \<Rightarrow> True | Some n \<Rightarrow> salary_isNumeric n))"

text \<open>
  \<^verbatim>\<open>x || old\<close> on a string and on a number (the empty string and 0 are falsy), and
  \<^verbatim>\<open>x ?? old\<close> (only an absent value gives way).
\<close>

definition or_str :: "string option \<Rightarrow> string \<Rightarrow> string" where
  "or_str x old = (case x of None \<Rightarrow> old | Some s \<Rightarrow> if s = [] then old else s)"

definition or_num :: "int option \<Rightarrow> int option \<Rightarrow> int option" where
  "or_num x old = (case x of None \<Rightarrow> old | Some n \<Rightarrow> if n = 0 then old else Some n)"

definition nullish_str :: "string option \<Rightarrow> string \<Rightarrow> string" where
  "nullish_str x old = (case x of None \<Rightarrow> old | Some s \<Rightarrow> s)"

definition nullish_num :: "int option \<Rightarrow> int option \<Rightarrow> int option" where
  "nullish_num x old = (case x of None \<Rightarrow> old | Some n \<Rightarrow> Some n)"

text \<open>\<^verbatim>\<open>router.put('/:id', auth, [...], ...)\<close> of src/routes/jobs.js: the handler.\<close>

definition update_job_or ::
  "request \<Rightarrow> string \<Rightarrow> job_update \<Rightarrow> job_doc list \<Rightarrow> response outcome \<times> job_doc list" where
  "update_job_or req jid b st =
     (if \<not> update_valid b then (NextErr (CustomError ''Validation failed'' 400), st)
      else
        (case user req of
           None \<Rightarrow> (NextErr no_user_error, st)
         | Some u \<Rightarrow>
             (case Job_findOne jid (userId u) st of
                None \<Rightarrow> (NextErr (CustomError ''Job not found'' 404), st)
              | Some job \<Rightarrow>
                  (let updatedJob = job
                     \<lparr>j_title := or_str (up_title b) (j_title job),
                      j_company := or_str (up_company b) (j_company job),
                      j_description := or_str (up_description b) (j_description job),
                      j_location := or_str (up_location b) (j_location job),
                      j_salary := or_num (up_salary b) (j_salary job)\<rparr>
                   in (Respond \<lparr>res_status = 200, res_body = job_json updatedJob\<rparr>,
                       Job_save updatedJob st)))))"

text \<open>The same handler in the second routes/jobs.js (inside src/routes/auth.js).\<close>

definition update_job_nullish ::
  "request \<Rightarrow> string \<Rightarrow> job_update \<Rightarrow> job_doc list \<Rightarrow> response outcome \<times> job_doc list" where
  "update_job_nullish req jid b st =
     (if \<not> update_valid b then (NextErr (CustomError ''Validation failed'' 400), st)
      else
        (case user req of
           None \<Rightarrow> (NextErr no_user_error, st)
         | Some u \<Rightarrow>
             (case Job_findOne jid (userId u) st of
                None \<Rightarrow> (NextErr (CustomError ''Job not found'' 404), st)
              | Some job \<Rightarrow>
                  (let updatedJob = job
                     \<lparr>j_title := nullish_str (up_title b) (j_title job),
                      j_company := nullish_str (up_company b) (j_company job),
                      j_description := nullish_str (up_description b) (j_description job),
                      j_location := nullish_str (up_location b) (j_location job),
                      j_salary := nullish_num (up_salary b) (j_salary job)\<rparr>
                   in (Respond \<lparr>res_status = 200, res_body = job_json updatedJob\<rparr>,
                       Job_save updatedJob st)))))"

text \<open>
  The query of \<^verbatim>\<open>router.get('/', auth, ...)\<close>: \<open>page\<close> and \<open>limit\<close> as
  \<^verbatim>\<open>parseInt\<close> returns them, the three filters as strings (empty when absent,
  which is falsy).
\<close>

record list_query =
  q_page :: int
  q_limit :: int
  q_search :: string
  q_company :: string
  q_location :: string

text \<open>The filter the handler builds: always the owner, then each filter that is given.\<close>

definition query_matches :: "libs \<Rightarrow> string \<Rightarrow> list_query \<Rightarrow> job_doc \<Rightarrow> bool" where
  "query_matches L uid q j =
     (j_user j = uid
      \<and> (q_search q = [] \<or> regex_test L (q_search q) (j_title j)
             \<or> regex_test L (q_search q) (j_description j))
      \<and> (q_company q = [] \<or> regex_test L (q_company q) (j_company j))
      \<and> (q_location q = [] \<or> regex_test L (q_location q) (j_location j)))"

text \<open>
  \<^verbatim>\<open>.sort({ createdAt: -1 }).skip(skip).limit(limitNumber)\<close>, as the store runs it:
  a negative skip is refused, a limit of 0 is no limit, a negative limit counts as its
  absolute value.
\<close>

definition Job_find_page ::
  "libs \<Rightarrow> string \<Rightarrow> list_query \<Rightarrow> job_doc list \<Rightarrow> js_error + job_doc list" where
  "Job_find_page L uid q st =
     (let skip = (q_page q - 1) * q_limit q;
          sorted_jobs = sort_key (\<lambda>j. - int (j_createdAt j)) (filter (query_matches L uid q) st)
      in if skip < 0 then Inl (LibraryError ''Skip value must be non-negative'')
         else if q_limit q = 0 then Inr (drop (nat skip) sorted_jobs)
         else Inr (take (nat \<bar>q_limit q\<bar>) (drop (nat skip) sorted_jobs)))"

text \<open>
  \<^verbatim>\<open>Math.ceil(totalJobs / limitNumber)\<close>; a division by 0 gives no finite number,
  which JSON writes as \<^verbatim>\<open>null\<close>.
\<close>

definition totalPages :: "nat \<Rightarrow> int \<Rightarrow> json" where
  "totalPages n lim = (if lim = 0 then JsNull else JsNum (- ((- int n) div lim)))"

definition list_jobs :: "libs \<Rightarrow> request \<Rightarrow> list_query \<Rightarrow> job_doc list \<Rightarrow> response outcome" where
  "list_jobs L req q st =
     (case user req of
        None \<Rightarrow> NextErr no_user_error
      | Some u \<Rightarrow>
          (let totalJobs = length (filter (query_matches L (userId u) q) st) in
           case Job_find_page L (userId u) q st of
             Inl err \<Rightarrow> NextErr err
           | Inr jobs \<Rightarrow>
               Respond \<lparr>res_status = 200,
                        res_body = JsObj
                          [(''success'', JsBool True),
                           (''total'', JsNum (int totalJobs)),
                           (''page'', JsNum (q_page q)),
                           (''totalPages'', totalPages totalJobs (q_limit q)),
                           (''jobs'', JsArr (map job_json jobs))]\<rparr>))"

text \<open>
  \<^verbatim>\<open>router.post('/', auth, [authorize(...),] [...], ...)\<close>: the body, its validators
  and the handler; \<open>oid\<close> is the fresh identifier.
\<close>

record job_body =
  jb_title :: string
  jb_company :: string
  jb_description :: string
  jb_location :: string
  jb_salary :: "int option"

definition create_valid :: "job_body \<Rightarrow> bool" where
  "create_valid b =
     (jb_title b \<noteq> [] \<and> jb_company b \<noteq> [] \<and> 10 \<le> length (jb_description b)
      \<and> jb_location b \<noteq> []
      \<and> (case jb_salary b of None \<Rightarrow> True | Some n \<Rightarrow> salary_isNumeric n))"

definition create_job ::
  "env \<Rightarrow> string \<Rightarrow> request \<Rightarrow> job_body \<Rightarrow> job_doc list \<Rightarrow> response outcome \<times> job_doc list" where
  "create_job E oid req b st =
     (if \<not> create_valid b then (NextErr (CustomError ''Validation failed'' 400), st)
      else
        (case user req of
           None \<Rightarrow> (NextErr no_user_error, st)
         | Some u \<Rightarrow>
             (let savedJob =
                \<lparr>j_id = oid, j_title = jb_title b, j_company = jb_company b,
                 j_description = jb_description b, j_location = jb_location b,
                 j_salary = jb_salary b, j_user = userId u, j_createdAt = clock E\<rparr>
              in (Respond \<lparr>res_status = 201, res_body = job_json savedJob\<rparr>, st @ [savedJob]))))"

text \<open>A route: the middleware in the order it is registered, then the handler.\<close>

fun then_handler ::
  "request outcome \<Rightarrow> (request \<Rightarrow> response outcome \<times> 's) \<Rightarrow> 's \<Rightarrow> response outcome \<times> 's" where
  "then_handler (Next req) h st = h req"
| "then_handler (NextErr e) h st = (NextErr e, st)"
| "then_handler (Respond r) h st = (Respond r, st)"

text \<open>\<^verbatim>\<open>POST /api/jobs\<close> of src/routes/jobs.js: no role gate.\<close>

definition POST_jobs ::
  "libs \<Rightarrow> env \<Rightarrow> string \<Rightarrow> request \<Rightarrow> job_body \<Rightarrow> job_doc list \<Rightarrow> response outcome \<times> job_doc list" where
  "POST_jobs L E oid req b st =
     then_handler (authMiddleware L E req) (\<lambda>r. create_job E oid r b st) st"

text \<open>\<^verbatim>\<open>POST /api/jobs\<close> of the second routes/jobs.js: the role gate after the auth gate.\<close>

definition POST_jobs_gated ::
  "libs \<Rightarrow> env \<Rightarrow> nat \<Rightarrow> string \<Rightarrow> request \<Rightarrow> job_body \<Rightarrow> job_doc list
     \<Rightarrow> response outcome \<times> job_doc list" where
  "POST_jobs_gated L E a oid req b st =
     then_handler
       (bind_outcome (authMiddleware L E req) (authorize (jobs_post_allowedRoles a)))
       (\<lambda>r. create_job E oid r b st) st"

text \<open>The routes on one job and the list, behind the auth gate.\<close>

definition GET_job :: "libs \<Rightarrow> env \<Rightarrow> request \<Rightarrow> string \<Rightarrow> job_doc list \<Rightarrow> response outcome" where
  "GET_job L E req jid st = bind_outcome (authMiddleware L E req) (\<lambda>r. get_job r jid st)"

definition GET_jobs :: "libs \<Rightarrow> env \<Rightarrow> request \<Rightarrow> list_query \<Rightarrow> job_doc list \<Rightarrow> response outcome" where
  "GET_jobs L E req q st = bind_outcome (authMiddleware L E req) (\<lambda>r. list_jobs L r q st)"

definition DELETE_job ::
  "libs \<Rightarrow> env \<Rightarrow> request \<Rightarrow> string \<Rightarrow> job_doc list \<Rightarrow> response outcome \<times> job_doc list" where
  "DELETE_job L E req jid st = then_handler (authMiddleware L E req) (\<lambda>r. delete_job r jid st) st"

definition PUT_job_or ::
  "libs \<Rightarrow> env \<Rightarrow> request \<Rightarrow> string \<Rightarrow> job_update \<Rightarrow> job_doc list
     \<Rightarrow> response outcome \<times> job_doc list" where
  "PUT_job_or L E req jid b st =
     then_handler (authMiddleware L E req) (\<lambda>r. update_job_or r jid b st) st"

definition PUT_job_nullish ::
  "libs \<Rightarrow> env \<Rightarrow> request \<Rightarrow> string \<Rightarrow> job_update \<Rightarrow> job_doc list
     \<Rightarrow> response outcome \<times> job_doc list" where
  "PUT_job_nullish L E req jid b st =
     then_handler (authMiddleware L E req) (\<lambda>r. update_job_nullish r jid b st) st"

section \<open>Named responses\<close>

text \<open>What the error handler sends for \<^verbatim>\<open>new CustomError('Invalid credentials', 400)\<close>.\<close>

definition invalid_credentials :: response where
  "invalid_credentials =
     \<lparr>res_status = 400,
      res_body = JsObj [(''success'', JsBool False), (''message'', JsStr ''Invalid credentials'')]\<rparr>"


text \<open>
  How a handler may end: with a response of status 200 or 201, or with an error passed to
  \<^verbatim>\<open>next\<close> that carries the code 400 or 404 or none.
\<close>

definition handler_contract :: "response outcome \<Rightarrow> bool" where
  "handler_contract out =
     (case out of
        Respond r \<Rightarrow> res_status r = 200 \<or> res_status r = 201
      | NextErr e \<Rightarrow> err_statusCode e = Some 400 \<or> err_statusCode e = Some 404 \<or> err_statusCode e = None
      | Next r \<Rightarrow> False)"

section \<open>Example data\<close>

text \<open>
  Stand-ins for the libraries, used to run the model on concrete requests: a hash that
  prefixes a two-character salt, a signature that joins the secret, the subject and the
  role, a token string that joins subject, role and signature, a parser that knows the two
  token strings of the examples, an address test that looks for the at sign, and a pattern
  match by equality.
\<close>

definition demo_jwt :: jwt where
  "demo_jwt =
     \<lparr>jwt_payload = \<lparr>userId = ''u1'', role = JStr ''recruiter'', iat = 1000, exp = 4600\<rparr>,
      jwt_signature = ''s3cret|u1|recruiter''\<rparr>"

definition demo_jwt_id :: jwt where
  "demo_jwt_id =
     \<lparr>jwt_payload = \<lparr>userId = ''u1'', role = JUndefined, iat = 1000, exp = 4600\<rparr>,
      jwt_signature = ''s3cret|u1|''\<rparr>"

definition demo_libs :: libs where
  "demo_libs =
     \<lparr>bcrypt_hash = (\<lambda>p salt. take 2 (salt @ ''..'') @ p),
      bcrypt_compare = (\<lambda>p h. drop 2 h = p),
      hmac = (\<lambda>secret c. secret @ ''|'' @ userId c @ ''|'' @ str_of (role c)),
      jwt_encode = (\<lambda>t. userId (jwt_payload t) @ ''.'' @ str_of (role (jwt_payload t)) @ ''.''
                       @ jwt_signature t),
      jwt_decode = (\<lambda>s. if s = ''u1.recruiter.s3cret|u1|recruiter'' then Some demo_jwt
                        else if s = ''u1..s3cret|u1|'' then Some demo_jwt_id
                        else None),
      isEmail = (\<lambda>e. CHR ''@'' \<in> set e),
      regex_test = (\<lambda>p t. p = t)\<rparr>"

definition demo_env :: env where
  "demo_env = \<lparr>JWT_SECRET = ''s3cret'', clock = 1000\<rparr>"

definition alice_body :: signup_body where
  "alice_body =
     \<lparr>sb_name = ''Alice'', sb_email = ''alice@x.com'', sb_password = ''secret1'',
      sb_role = JStr ''admin''\<rparr>"

definition alice :: user_doc where
  "alice =
     \<lparr>u_id = ''u1'', u_name = ''Alice'', u_email = ''alice@x.com'', u_password = ''absecret1'',
      u_role = ''recruiter''\<rparr>"

definition alice_req :: request where
  "alice_req =
     \<lparr>authorization = Some ''Bearer u1.recruiter.s3cret|u1|recruiter'',
      user = Some (jwt_payload demo_jwt)\<rparr>"

definition bob_job :: job_doc where
  "bob_job =
     \<lparr>j_id = ''j1'', j_title = ''Engineer'', j_company = ''Acme'',
      j_description = ''Builds things.'', j_location = ''Pune'', j_salary = Some 50000,
      j_user = ''u2'', j_createdAt = 900\<rparr>"

definition alice_job :: job_doc where
  "alice_job =
     \<lparr>j_id = ''j2'', j_title = ''Recruiter'', j_company = ''Acme'',
      j_description = ''Hires people.'', j_location = ''Pune'', j_salary = Some 40000,
      j_user = ''u1'', j_createdAt = 950\<rparr>"

definition no_update :: job_update where
  "no_update =
     \<lparr>up_title = None, up_company = None, up_description = None, up_location = None,
      up_salary = None\<rparr>"

definition first_page :: list_query where
  "first_page = \<lparr>q_page = 1, q_limit = 10, q_search = [], q_company = [], q_location = []\<rparr>"

section \<open>Helper lemmas\<close>

lemmas store_defs = User_findOne_def User_save_def new_User_def User_validate_def pre_save_def
  email_setters_def toLowerCase_def lower_char_def js_trim_def js_isspace_def

lemmas demo_defs = demo_libs_def demo_env_def demo_jwt_def demo_jwt_id_def alice_body_def alice_def
  alice_req_def bob_job_def alice_job_def no_update_def first_page_def

lemma sameValueZero_JStr_right: "sameValueZero x (JStr s) = (x = JStr s)"
  by (cases x) auto

lemma sameValueZero_JStr_left: "sameValueZero (JStr s) y = (y = JStr s)"
  by (cases y) auto

lemmas err_defs = CustomError_def LibraryError_def no_user_error_def

lemmas auth_defs = signup_token_def login_token_def signup_msg_def login_id_def signup_valid_def
  assignedRole_def js_includes_def matchPassword_def bcrypt_compare_js_def issue_role_def issue_id_def jwt_sign_def
  user_json_def CustomError_def LibraryError_def errorHandler_def Let_def

lemmas gate_defs = authMiddleware_def no_token_def token_invalid_def jwt_verify_string_def jwt_verify_def startsWith_def
  authorize_def authorizeRoles_def jobs_post_allowedRoles_def js_includes_def no_user_error_def
  CustomError_def LibraryError_def errorHandler_def Let_def

section \<open>Role Gate\<close>

text \<open>
  A gate registered with the two roles as two arguments admits exactly the two: membership
  is exact, and no role stands for another.
\<close>

lemma authorize_spread:
  "authorize [JStr ''recruiter'', JStr ''admin''] (req\<lparr>user := Some u\<rparr>)
     = (if role u = JStr ''recruiter'' \<or> role u = JStr ''admin'' then Next (req\<lparr>user := Some u\<rparr>)
        else NextErr (CustomError ''Access denied: insufficient role'' 403))"
  by (auto simp add: authorize_def js_includes_def sameValueZero_JStr_left)

text \<open>
  Claim C2. The claim: the gate on \<^verbatim>\<open>POST /api/jobs\<close> lets a recruiter and an admin
  through and rejects every other role with 403. The gate as that route registers it
  holds one allowed value, the array, which no role read from a token is: it rejects
  every role string with 403, \<open>recruiter\<close> and \<open>admin\<close> included, and the handler
  behind it is never reached.
\<close>

theorem role_gate_as_registered_rejects:
  "authorize (jobs_post_allowedRoles a) (req\<lparr>user := Some (u\<lparr>role := JStr r\<rparr>)\<rparr>)
     = NextErr (CustomError ''Access denied: insufficient role'' 403)
   \<and> res_status (sent (bind_outcome
         (authorize (jobs_post_allowedRoles a) (req\<lparr>user := Some (u\<lparr>role := JStr r\<rparr>)\<rparr>))
         (\<lambda>x. Respond ok))) = 403"
  by (simp add: authorize_def jobs_post_allowedRoles_def js_includes_def CustomError_def
      errorHandler_def)

text \<open>The whole route, for a recruiter with a valid token and a valid body.\<close>

theorem role_gate_as_registered_rejects_recruiter:
  "fst (POST_jobs_gated demo_libs demo_env 0 ''j9'' alice_req
      \<lparr>jb_title = ''T'', jb_company = ''C'', jb_description = ''0123456789'',
       jb_location = ''L'', jb_salary = None\<rparr> [])
    = NextErr (CustomError ''Access denied: insufficient role'' 403)"
  using role_gate_as_registered_rejects
    [where a = 0 and req = alice_req and u = "jwt_payload demo_jwt" and r = "''recruiter''"]
  by (simp add: POST_jobs_gated_def gate_defs demo_defs)

section \<open>Signup: the role\<close>


text \<open>What a successful role-aware signup did.\<close>

lemma signup_token_Respond:
  assumes "signup_token L E oid salt b st = (Respond r, st')"
  shows "signup_valid L b \<and> User_findOne (sb_email b) st = None
     \<and> User_save L salt
          (new_User oid (sb_name b) (sb_email b) (sb_password b) (assignedRole (sb_role b))) st
        = Inr (last st', st')
     \<and> st' = st @ [last st']
     \<and> r = \<lparr>res_status = 201,
             res_body = JsObj [(''token'', JsStr (jwt_encode L (issue_role L E (last st')))),
                               (''user'', user_json (last st'))]\<rparr>"
  using assms
  by (auto simp add: signup_token_def User_save_def Let_def
      split: if_splits option.splits sum.splits prod.splits)





section \<open>Login failures\<close>

text \<open>
  With a password that is a string, an address that is not registered and a registered
  address with a password that does not match are answered alike by both logins.
\<close>

lemma login_string_password_failures_alike:
  assumes "User_findOne (lb_email b1) st = None"
    and "User_findOne (lb_email b2) st = Some u"
    and "lb_password b2 = JStr p"
    and "\<not> bcrypt_compare L p (u_password u)"
  shows "sent (login_token L E b1 st) = invalid_credentials
       \<and> sent (login_token L E b2 st) = invalid_credentials
       \<and> sent (login_id L E b1 st) = invalid_credentials
       \<and> sent (login_id L E b2 st) = invalid_credentials"
  using assms
  by (simp add: login_token_def login_id_def matchPassword_def bcrypt_compare_js_def
      invalid_credentials_def CustomError_def errorHandler_def)

text \<open>
  Claim C6. The claim: a login with an address that is not registered and a login with a
  registered address and a wrong password are answered alike, 400 and
  \<open>Invalid credentials\<close>. Neither login validates its body. With a password that is
  not a string (absent, a number), the comparison of the library rejects: for a registered
  address the rejection reaches the error handler as an error without a status code and
  the answer is 500 with the library's message, while an address that is not registered
  is answered 400 before any comparison. The two answers differ, so the answer tells
  whether the address is registered.
\<close>

theorem login_without_string_password_distinguishes:
  assumes "User_findOne (lb_email b1) st = None"
    and "User_findOne (lb_email b2) st = Some u"
    and "\<forall>p. lb_password b2 \<noteq> JStr p"
  shows "sent (login_token L E b1 st) = invalid_credentials
       \<and> sent (login_id L E b1 st) = invalid_credentials
       \<and> sent (login_token L E b2 st)
           = \<lparr>res_status = 500,
              res_body = JsObj
                [(''success'', JsBool False),
                 (''message'', JsStr (''Illegal arguments: '' @ js_typeof (lb_password b2)
                                        @ '', string''))]\<rparr>
       \<and> sent (login_id L E b2 st) = sent (login_token L E b2 st)
       \<and> sent (login_token L E b2 st) \<noteq> sent (login_token L E b1 st)
       \<and> sent (login_id L E b2 st) \<noteq> sent (login_id L E b1 st)"
proof -
  from assms(3) have c: "bcrypt_compare_js L (lb_password b2) (u_password u)
      = Inl (LibraryError (''Illegal arguments: '' @ js_typeof (lb_password b2) @ '', string''))"
    by (cases "lb_password b2") (simp_all add: bcrypt_compare_js_def)
  from assms(1) have 1: "sent (login_token L E b1 st) = invalid_credentials"
    and 2: "sent (login_id L E b1 st) = invalid_credentials"
    by (simp_all add: login_token_def login_id_def invalid_credentials_def CustomError_def
        errorHandler_def)
  from assms(2) c have 3: "sent (login_token L E b2 st)
           = \<lparr>res_status = 500,
              res_body = JsObj
                [(''success'', JsBool False),
                 (''message'', JsStr (''Illegal arguments: '' @ js_typeof (lb_password b2)
                                        @ '', string''))]\<rparr>"
    and 4: "sent (login_id L E b2 st)
           = \<lparr>res_status = 500,
              res_body = JsObj
                [(''success'', JsBool False),
                 (''message'', JsStr (''Illegal arguments: '' @ js_typeof (lb_password b2)
                                        @ '', string''))]\<rparr>"
    by (simp_all add: login_token_def login_id_def matchPassword_def LibraryError_def
        errorHandler_def)
  from 1 2 3 4 show ?thesis by (simp add: invalid_credentials_def)
qed

theorem login_without_string_password_distinguishes_witness:
  "User_findOne ''bob@x.com'' [alice] = None
   \<and> User_findOne ''alice@x.com'' [alice] = Some alice
   \<and> sent (login_token demo_libs demo_env \<lparr>lb_email = ''bob@x.com'', lb_password = JUndefined\<rparr> [alice])
       = \<lparr>res_status = 400,
          res_body = JsObj [(''success'', JsBool False), (''message'', JsStr ''Invalid credentials'')]\<rparr>
   \<and> sent (login_token demo_libs demo_env \<lparr>lb_email = ''alice@x.com'', lb_password = JUndefined\<rparr> [alice])
       = \<lparr>res_status = 500,
          res_body = JsObj [(''success'', JsBool False),
                            (''message'', JsStr ''Illegal arguments: undefined, string'')]\<rparr>
   \<and> sent (login_id demo_libs demo_env \<lparr>lb_email = ''alice@x.com'', lb_password = JUndefined\<rparr> [alice])
       = \<lparr>res_status = 500,
          res_body = JsObj [(''success'', JsBool False),
                            (''message'', JsStr ''Illegal arguments: undefined, string'')]\<rparr>"
proof -
  have a: "User_findOne (lb_email \<lparr>lb_email = ''bob@x.com'', lb_password = JUndefined\<rparr>) [alice] = None"
    by (simp add: store_defs demo_defs)
  have b: "User_findOne (lb_email \<lparr>lb_email = ''alice@x.com'', lb_password = JUndefined\<rparr>) [alice]
      = Some alice"
    by (simp add: store_defs demo_defs)
  have c: "\<forall>p. lb_password \<lparr>lb_email = ''alice@x.com'', lb_password = JUndefined\<rparr> \<noteq> JStr p"
    by simp
  show ?thesis
    using login_without_string_password_distinguishes [OF a b c, of demo_libs demo_env] a b
    by (simp add: invalid_credentials_def)
qed

section \<open>Auth Gate\<close>

lemma split_on_nonempty: "split_on c s \<noteq> []"
  by (induction s) (auto split: list.splits)

lemma split_on_space: "c \<in> set s \<Longrightarrow> \<exists>x y ys. split_on c s = x # y # ys"
proof (induction s)
  case Nil
  then show ?case by simp
next
  case (Cons a s)
  show ?case
  proof (cases "a = c")
    case True
    then show ?thesis
      using split_on_nonempty [of c s] by (cases "split_on c s") auto
  next
    case False
    with Cons obtain x y ys where "split_on c s = x # y # ys" by auto
    with False show ?thesis by simp
  qed
qed

lemma bearer_has_token:
  assumes "startsWith h ''Bearer ''"
  shows "\<exists>s. index1 (split_on CHR '' '' h) = Some s"
proof -
  from assms have "set (take (length ''Bearer '') h) = set ''Bearer ''"
    unfolding startsWith_def by (rule arg_cong)
  moreover have "CHR '' '' \<in> set ''Bearer ''" by simp
  ultimately have "CHR '' '' \<in> set (take (length ''Bearer '') h)" by blast
  then have "CHR '' '' \<in> set h" by (rule in_set_takeD)
  from split_on_space [OF this] show ?thesis by auto
qed

text \<open>
  Claim C7. With no Authorization header, or one that does not start with \<open>Bearer \<close>,
  the gate answers 401 whatever the libraries, the secret and the clock are: nothing is
  verified. A header that starts with \<open>Bearer \<close> always yields a token string; if it
  does not parse, its signature does not match or its expiry has passed, the gate answers
  401; otherwise it continues with the request changed in one place, \<^verbatim>\<open>req.user\<close>,
  which holds the decoded payload (subject, role, issue time and expiry).
\<close>

theorem auth_gate:
  "(authorization req = None \<or> (\<exists>h. authorization req = Some h \<and> \<not> startsWith h ''Bearer '')
      \<longrightarrow> (\<forall>L' E'. authMiddleware L' E' req = Respond no_token))
   \<and> (\<forall>h. authorization req = Some h \<and> startsWith h ''Bearer ''
        \<longrightarrow> (\<exists>s. index1 (split_on CHR '' '' h) = Some s))
   \<and> (\<forall>h s. authorization req = Some h \<and> startsWith h ''Bearer ''
          \<and> index1 (split_on CHR '' '' h) = Some s \<longrightarrow>
        (jwt_decode L s = None \<longrightarrow> authMiddleware L E req = Respond token_invalid)
        \<and> (\<forall>t. jwt_decode L s = Some t \<longrightarrow>
              (jwt_signature t \<noteq> hmac L (JWT_SECRET E) (jwt_payload t)
                 \<or> exp (jwt_payload t) \<le> clock E
                 \<longrightarrow> authMiddleware L E req = Respond token_invalid)
              \<and> (jwt_signature t = hmac L (JWT_SECRET E) (jwt_payload t)
                 \<and> clock E < exp (jwt_payload t)
                 \<longrightarrow> authMiddleware L E req = Next (req\<lparr>user := Some (jwt_payload t)\<rparr>))))"
proof -
  have none: "authMiddleware L' E' req = Respond no_token"
    if "authorization req = None \<or> (\<exists>h. authorization req = Some h \<and> \<not> startsWith h ''Bearer '')"
    for L' E'
    using that by (auto simp add: authMiddleware_def)
  have verified:
    "(jwt_decode L s = None \<longrightarrow> authMiddleware L E req = Respond token_invalid)
        \<and> (\<forall>t. jwt_decode L s = Some t \<longrightarrow>
              (jwt_signature t \<noteq> hmac L (JWT_SECRET E) (jwt_payload t)
                 \<or> exp (jwt_payload t) \<le> clock E
                 \<longrightarrow> authMiddleware L E req = Respond token_invalid)
              \<and> (jwt_signature t = hmac L (JWT_SECRET E) (jwt_payload t)
                 \<and> clock E < exp (jwt_payload t)
                 \<longrightarrow> authMiddleware L E req = Next (req\<lparr>user := Some (jwt_payload t)\<rparr>)))"
    if h: "authorization req = Some h" "startsWith h ''Bearer ''"
      and s: "index1 (split_on CHR '' '' h) = Some s"
    for h s
  proof -
    from h have "h \<noteq> []" by (auto simp add: startsWith_def)
    with h s show ?thesis
      by (auto simp add: authMiddleware_def jwt_verify_string_def jwt_verify_def Let_def)
  qed
  from none bearer_has_token verified show ?thesis by blast
qed

theorem auth_gate_witness:
  "authMiddleware demo_libs demo_env alice_req = Next alice_req
   \<and> authMiddleware demo_libs demo_env (alice_req\<lparr>authorization := None\<rparr>) = Respond no_token
   \<and> authMiddleware demo_libs demo_env (alice_req\<lparr>authorization := Some ''Basic abc''\<rparr>)
       = Respond no_token
   \<and> authMiddleware demo_libs demo_env (alice_req\<lparr>authorization := Some ''Bearer abc''\<rparr>)
       = Respond token_invalid
   \<and> authMiddleware demo_libs (demo_env\<lparr>clock := 4600\<rparr>) alice_req = Respond token_invalid"
proof -
  have h: "authorization alice_req = Some ''Bearer u1.recruiter.s3cret|u1|recruiter''
      \<and> startsWith ''Bearer u1.recruiter.s3cret|u1|recruiter'' ''Bearer ''
      \<and> index1 (split_on CHR '' '' ''Bearer u1.recruiter.s3cret|u1|recruiter'') = Some ''u1.recruiter.s3cret|u1|recruiter''"
    by (simp add: demo_defs startsWith_def)
  have d: "jwt_decode demo_libs ''u1.recruiter.s3cret|u1|recruiter'' = Some demo_jwt"
    by (simp add: demo_defs)
  have ok: "jwt_signature demo_jwt = hmac demo_libs (JWT_SECRET demo_env) (jwt_payload demo_jwt)
      \<and> clock demo_env < exp (jwt_payload demo_jwt)"
    by (simp add: demo_defs)
  have late: "exp (jwt_payload demo_jwt) \<le> clock (demo_env\<lparr>clock := 4600\<rparr>)"
    by (simp add: demo_defs)
  have 1: "authMiddleware demo_libs demo_env alice_req = Next (alice_req\<lparr>user := Some (jwt_payload demo_jwt)\<rparr>)"
    using auth_gate [of alice_req demo_libs demo_env] h d ok by blast
  have 2: "authMiddleware demo_libs (demo_env\<lparr>clock := 4600\<rparr>) alice_req = Respond token_invalid"
    using auth_gate [of alice_req demo_libs "demo_env\<lparr>clock := 4600\<rparr>"] h d late by blast
  have 3: "authMiddleware demo_libs demo_env (alice_req\<lparr>authorization := None\<rparr>) = Respond no_token"
    using auth_gate [of "alice_req\<lparr>authorization := None\<rparr>" demo_libs demo_env] by simp
  have 4: "authMiddleware demo_libs demo_env (alice_req\<lparr>authorization := Some ''Basic abc''\<rparr>)
       = Respond no_token"
    by (simp add: authMiddleware_def startsWith_def)
  have 5: "authMiddleware demo_libs demo_env (alice_req\<lparr>authorization := Some ''Bearer abc''\<rparr>)
       = Respond token_invalid"
    by (simp add: authMiddleware_def startsWith_def jwt_verify_string_def demo_defs)
  from 1 2 3 4 5 show ?thesis by (simp add: alice_req_def)
qed

section \<open>Error translation\<close>

lemma errorHandler_uniform:
  "uniform_error_body (res_body (errorHandler err))
   \<and> res_status (errorHandler err)
       = (case err_statusCode err of None \<Rightarrow> 500 | Some c \<Rightarrow> if c = 0 then 500 else c)"
  by (simp add: errorHandler_def)

lemma User_save_error: "User_save L salt u st = Inl e \<Longrightarrow> err_statusCode e = None"
  by (auto simp add: User_save_def LibraryError_def Let_def split: if_splits)

lemma bcrypt_compare_js_error:
  "bcrypt_compare_js L s h = Inl e \<Longrightarrow> err_statusCode e = None"
  by (cases s) (auto simp add: bcrypt_compare_js_def LibraryError_def)

lemma signup_handlers_contract:
  "handler_contract (fst (signup_token L E oid salt sb st))
   \<and> handler_contract (fst (signup_msg L oid salt salt' sb st))"
  by (auto simp add: handler_contract_def signup_token_def signup_msg_def err_defs Let_def
      dest: User_save_error split: option.splits sum.splits prod.splits)

lemma login_handlers_contract:
  "handler_contract (login_token L E lb st) \<and> handler_contract (login_id L E lb st)"
  by (auto simp add: handler_contract_def login_token_def login_id_def matchPassword_def
      err_defs Let_def dest: bcrypt_compare_js_error split: option.splits sum.splits)

lemma auth_handlers_contract:
  "handler_contract (fst (signup_token L E oid salt sb st))
   \<and> handler_contract (fst (signup_msg L oid salt salt' sb st))
   \<and> handler_contract (login_token L E lb st)
   \<and> handler_contract (login_id L E lb st)"
  using signup_handlers_contract [of L E oid salt sb st salt'] login_handlers_contract [of L E lb st]
  by simp

lemma Job_find_page_error: "Job_find_page L uid q st = Inl e \<Longrightarrow> err_statusCode e = None"
  by (auto simp add: Job_find_page_def LibraryError_def Let_def split: if_splits)

lemma job_handlers_contract:
  "handler_contract (get_job req jid st)
   \<and> handler_contract (fst (delete_job req jid st))
   \<and> handler_contract (fst (update_job_or req jid up st))
   \<and> handler_contract (fst (update_job_nullish req jid up st))
   \<and> handler_contract (list_jobs L req q st)
   \<and> handler_contract (fst (create_job E oid req jb st))"
  by (auto simp add: handler_contract_def get_job_def delete_job_def update_job_or_def
      update_job_nullish_def list_jobs_def create_job_def err_defs Let_def
      dest: Job_find_page_error
      split: option.splits sum.splits prod.splits)

lemma gates_respond:
  "(\<forall>e. authorize roles req = NextErr e \<longrightarrow> err_statusCode e = Some 403 \<or> err_statusCode e = None)
   \<and> (\<forall>r. authorize roles req \<noteq> Respond r)
   \<and> (\<forall>r. authMiddleware L E req = Respond r
          \<longrightarrow> res_status r = 401 \<and> \<not> uniform_error_body (res_body r))
   \<and> (\<forall>e. authMiddleware L E req \<noteq> NextErr e)
   \<and> (\<forall>r. authorizeRoles roles req = Respond r
          \<longrightarrow> res_status r = 403 \<and> \<not> uniform_error_body (res_body r))"
  by (auto simp add: authorize_def authorizeRoles_def authMiddleware_def no_token_def
      token_invalid_def err_defs Let_def split: option.splits sum.splits if_splits)

text \<open>
  Claim C8. The claim: every failing request is answered with
  \<^verbatim>\<open>{ success: false, message }\<close> by the error handler. That holds for every error
  passed to \<^verbatim>\<open>next\<close>: the handler's body has that shape for any error, with the
  error's status code, or 500 when it has none (or 0). Every failure of the signup, login
  and job handlers is such an error (validation, duplicate, invalid credentials, not found,
  and the store's own errors), and so is the 403 of \<open>authorize\<close>. The Auth Gate never
  passes an error on: it sends its 401 itself, with a body that is not of that shape, and
  so does \<open>authorizeRoles\<close> with its 403.
\<close>

theorem errors_through_handler_uniform:
  "uniform_error_body (res_body (errorHandler err))
   \<and> res_status (errorHandler err)
       = (case err_statusCode err of None \<Rightarrow> 500 | Some c \<Rightarrow> if c = 0 then 500 else c)
   \<and> handler_contract (fst (signup_token L E oid salt sb ust))
   \<and> handler_contract (fst (signup_msg L oid salt salt' sb ust))
   \<and> handler_contract (login_token L E lb ust)
   \<and> handler_contract (login_id L E lb ust)
   \<and> handler_contract (get_job req jid st)
   \<and> handler_contract (fst (delete_job req jid st))
   \<and> handler_contract (fst (update_job_or req jid up st))
   \<and> handler_contract (fst (update_job_nullish req jid up st))
   \<and> handler_contract (list_jobs L req q st)
   \<and> handler_contract (fst (create_job E oid req jb st))
   \<and> (\<forall>e. authorize roles req = NextErr e \<longrightarrow> err_statusCode e = Some 403 \<or> err_statusCode e = None)
   \<and> (\<forall>r. authorize roles req \<noteq> Respond r)
   \<and> (\<forall>r. authMiddleware L E req = Respond r
          \<longrightarrow> res_status r = 401 \<and> \<not> uniform_error_body (res_body r))
   \<and> (\<forall>e. authMiddleware L E req \<noteq> NextErr e)
   \<and> (\<forall>r. authorizeRoles roles req = Respond r
          \<longrightarrow> res_status r = 403 \<and> \<not> uniform_error_body (res_body r))"
  using errorHandler_uniform [of err] auth_handlers_contract [of L E oid salt sb ust salt' lb]
    job_handlers_contract [of req jid st up L q E oid jb] gates_respond [of roles req L E]
  by blast

theorem errors_through_handler_uniform_witness:
  "get_job alice_req ''j1'' [bob_job] = NextErr (CustomError ''Job not found'' 404)
   \<and> sent (get_job alice_req ''j1'' [bob_job])
       = \<lparr>res_status = 404,
          res_body = JsObj [(''success'', JsBool False), (''message'', JsStr ''Job not found'')]\<rparr>
   \<and> res_status (errorHandler (LibraryError ''E11000 duplicate key error'')) = 500
   \<and> authMiddleware demo_libs demo_env (alice_req\<lparr>authorization := None\<rparr>) = Respond no_token
   \<and> res_status no_token = 401 \<and> \<not> uniform_error_body (res_body no_token)"
  using errors_through_handler_uniform
    [where err = "LibraryError ''E11000 duplicate key error''" and req = "alice_req\<lparr>authorization := None\<rparr>"
       and L = demo_libs and E = demo_env]
  by (simp add: get_job_def Job_findOne_def demo_defs err_defs errorHandler_def authMiddleware_def no_token_def)

text \<open>
  A protected route asked without a token, and \<open>authorizeRoles\<close> asked by a candidate:
  the bodies are \<^verbatim>\<open>{ msg }\<close> and \<^verbatim>\<open>{ message }\<close>.
\<close>

theorem gate_rejections_not_uniform:
  "sent (GET_job demo_libs demo_env \<lparr>authorization = None, user = None\<rparr> ''j2'' [alice_job])
     = \<lparr>res_status = 401, res_body = JsObj [(''msg'', JsStr ''No token, authorization denied'')]\<rparr>
   \<and> \<not> uniform_error_body
         (res_body (sent (GET_job demo_libs demo_env \<lparr>authorization = None, user = None\<rparr>
            ''j2'' [alice_job])))
   \<and> sent (bind_outcome (authorizeRoles [JStr ''recruiter'', JStr ''admin'']
                (alice_req\<lparr>user := Some ((jwt_payload demo_jwt)\<lparr>role := JStr ''candidate''\<rparr>)\<rparr>))
              (\<lambda>r. Respond \<lparr>res_status = 200, res_body = JsNull\<rparr>))
     = \<lparr>res_status = 403, res_body = JsObj [(''message'', JsStr ''Access denied: Unauthorized role'')]\<rparr>
   \<and> \<not> uniform_error_body (JsObj [(''message'', JsStr ''Access denied: Unauthorized role'')])"
  by (simp add: GET_job_def authMiddleware_def no_token_def authorizeRoles_def js_includes_def
      demo_defs)

section \<open>Response bodies of signup and login\<close>

lemma find_Some_set: "find P xs = Some x \<Longrightarrow> x \<in> set xs \<and> P x"
  by (induction xs) (auto split: if_splits)

lemma find_snoc:
  "find P (xs @ [x]) = (case find P xs of Some y \<Rightarrow> Some y | None \<Rightarrow> if P x then Some x else None)"
  by (induction xs) auto

lemma login_token_Respond:
  assumes "login_token L E lb st = Respond r"
  shows "\<exists>u\<in>set st. r = \<lparr>res_status = 200,
            res_body = JsObj [(''token'', JsStr (jwt_encode L (issue_role L E u))),
                              (''user'', user_json u)]\<rparr>"
  using assms
  by (auto simp add: login_token_def User_findOne_def Let_def dest!: find_Some_set
      split: option.splits sum.splits if_splits)

lemma login_id_Respond:
  assumes "login_id L E lb st = Respond r"
  shows "\<exists>u\<in>set st. r = \<lparr>res_status = 200,
            res_body = JsObj [(''token'', JsStr (jwt_encode L (issue_id L E u))),
                              (''user'', JsObj [(''id'', JsStr (u_id u)), (''name'', JsStr (u_name u)),
                                                (''email'', JsStr (u_email u))])]\<rparr>"
  using assms
  by (auto simp add: login_id_def User_findOne_def Let_def dest!: find_Some_set
      split: option.splits sum.splits if_splits)

lemma signup_msg_Respond:
  assumes "signup_msg L oid salt salt' b st = (Respond r, st')"
  shows "signup_valid L b \<and> User_findOne (sb_email b) st = None
     \<and> User_save L salt'
          (new_User oid (sb_name b) (sb_email b) (bcrypt_hash L (sb_password b) salt) ''candidate'') st
        = Inr (last st', st')
     \<and> st' = st @ [last st']
     \<and> r = \<lparr>res_status = 201, res_body = JsObj [(''msg'', JsStr ''User registered successfully'')]\<rparr>"
  using assms
  by (auto simp add: signup_msg_def User_save_def Let_def
      split: if_splits option.splits sum.splits prod.splits)

lemma password_not_read:
  "user_json (u\<lparr>u_password := p\<rparr>) = user_json u
   \<and> issue_role L E (u\<lparr>u_password := p\<rparr>) = issue_role L E u
   \<and> issue_id L E (u\<lparr>u_password := p\<rparr>) = issue_id L E u
   \<and> json_keys (user_json u) = [''id'', ''name'', ''email'', ''role'']"
  by (simp add: user_json_def issue_role_def issue_id_def)

text \<open>
  Claim C10. A successful signup or login answers with the token and a user object whose
  keys are \<open>id\<close>, \<open>name\<close>, \<open>email\<close> and \<open>role\<close> (the login of src/routes/auth.js
  leaves \<open>role\<close> out; its signup answers with a message only). Neither the user object
  nor the token reads the stored password: both are the same whatever it is.
\<close>

theorem auth_responses_without_password:
  "(\<forall>r st'. signup_token L E oid salt b st = (Respond r, st') \<longrightarrow>
      (\<exists>u\<in>set st'. r = \<lparr>res_status = 201,
          res_body = JsObj [(''token'', JsStr (jwt_encode L (issue_role L E u))),
                            (''user'', user_json u)]\<rparr>))
   \<and> (\<forall>r. login_token L E lb st = Respond r \<longrightarrow>
      (\<exists>u\<in>set st. r = \<lparr>res_status = 200,
          res_body = JsObj [(''token'', JsStr (jwt_encode L (issue_role L E u))),
                            (''user'', user_json u)]\<rparr>))
   \<and> (\<forall>r. login_id L E lb st = Respond r \<longrightarrow>
      (\<exists>u\<in>set st. r = \<lparr>res_status = 200,
          res_body = JsObj [(''token'', JsStr (jwt_encode L (issue_id L E u))),
                            (''user'', JsObj [(''id'', JsStr (u_id u)), (''name'', JsStr (u_name u)),
                                              (''email'', JsStr (u_email u))])]\<rparr>))
   \<and> (\<forall>r st'. signup_msg L oid salt salt' b st = (Respond r, st') \<longrightarrow>
      r = \<lparr>res_status = 201, res_body = JsObj [(''msg'', JsStr ''User registered successfully'')]\<rparr>)
   \<and> (\<forall>u p. user_json (u\<lparr>u_password := p\<rparr>) = user_json u
         \<and> issue_role L E (u\<lparr>u_password := p\<rparr>) = issue_role L E u
         \<and> issue_id L E (u\<lparr>u_password := p\<rparr>) = issue_id L E u
         \<and> json_keys (user_json u) = [''id'', ''name'', ''email'', ''role''])"
proof (intro conjI allI impI)
  fix r st'
  assume a: "signup_token L E oid salt b st = (Respond r, st')"
  from signup_token_Respond [OF a]
  have "st' = st @ [last st']"
    and "r = \<lparr>res_status = 201,
             res_body = JsObj [(''token'', JsStr (jwt_encode L (issue_role L E (last st')))),
                               (''user'', user_json (last st'))]\<rparr>"
    by simp_all
  moreover from \<open>st' = st @ [last st']\<close> have "last st' \<in> set st'"
    by (metis in_set_conv_decomp)
  ultimately show "\<exists>u\<in>set st'. r = \<lparr>res_status = 201,
          res_body = JsObj [(''token'', JsStr (jwt_encode L (issue_role L E u))),
                            (''user'', user_json u)]\<rparr>"
    by blast
next
  fix r st'
  assume "signup_msg L oid salt salt' b st = (Respond r, st')"
  from signup_msg_Respond [OF this]
  show "r = \<lparr>res_status = 201, res_body = JsObj [(''msg'', JsStr ''User registered successfully'')]\<rparr>"
    by simp
qed (simp_all add: login_token_Respond login_id_Respond password_not_read)

lemma alice_login:
  "login_token demo_libs demo_env \<lparr>lb_email = ''alice@x.com'', lb_password = JStr ''secret1''\<rparr> [alice] =
     Respond \<lparr>res_status = 200,
              res_body = JsObj
                [(''token'', JsStr ''u1.recruiter.s3cret|u1|recruiter''),
                 (''user'', JsObj [(''id'', JsStr ''u1''), (''name'', JsStr ''Alice''),
                                   (''email'', JsStr ''alice@x.com''),
                                   (''role'', JsStr ''recruiter'')])]\<rparr>"
  by (simp add: auth_defs store_defs demo_defs)

theorem auth_responses_without_password_witness:
  "login_token demo_libs demo_env \<lparr>lb_email = ''alice@x.com'', lb_password = JStr ''secret1''\<rparr> [alice] =
     Respond \<lparr>res_status = 200,
              res_body = JsObj
                [(''token'', JsStr ''u1.recruiter.s3cret|u1|recruiter''),
                 (''user'', JsObj [(''id'', JsStr ''u1''), (''name'', JsStr ''Alice''),
                                   (''email'', JsStr ''alice@x.com''),
                                   (''role'', JsStr ''recruiter'')])]\<rparr>
   \<and> u_password alice = ''absecret1''
   \<and> user_json (alice\<lparr>u_password := ''other''\<rparr>) = user_json alice"
  using auth_responses_without_password
    [where L = demo_libs and E = demo_env and st = "[alice]"
       and lb = "\<lparr>lb_email = ''alice@x.com'', lb_password = JStr ''secret1''\<rparr>"]
    alice_login
  by (simp add: alice_def user_json_def)

section \<open>Token Service: issue and verify\<close>









section \<open>Signup, then login\<close>

lemma User_save_Inr:
  assumes "User_save L salt u st = Inr (u', st')"
  shows "u' = u\<lparr>u_password := bcrypt_hash L (u_password u) salt\<rparr> \<and> st' = st @ [u']"
  using assms by (auto simp add: User_save_def pre_save_def Let_def split: if_splits)

lemma findOne_after_save:
  assumes "User_findOne e st = None" and "st' = st @ [u]" and "u_email u = email_setters e"
  shows "User_findOne e st' = Some u"
  using assms by (simp add: User_findOne_def find_snoc)

lemma signup_msg_stores_hash_of_hash:
  assumes "signup_msg L oid salt salt' b st = (Respond r, st')"
  shows "\<exists>u. st' = st @ [u]
      \<and> u_password u = bcrypt_hash L (bcrypt_hash L (sb_password b) salt) salt'
      \<and> User_findOne (sb_email b) st' = Some u"
proof -
  from signup_msg_Respond [OF assms]
  have none: "User_findOne (sb_email b) st = None"
    and sv: "User_save L salt'
          (new_User oid (sb_name b) (sb_email b) (bcrypt_hash L (sb_password b) salt) ''candidate'') st
        = Inr (last st', st')"
    by simp_all
  from User_save_Inr [OF sv]
  have u: "last st' = (new_User oid (sb_name b) (sb_email b) (bcrypt_hash L (sb_password b) salt) ''candidate'')
              \<lparr>u_password := bcrypt_hash L (u_password (new_User oid (sb_name b) (sb_email b) (bcrypt_hash L (sb_password b) salt) ''candidate'')) salt'\<rparr>"
    and app: "st' = st @ [last st']"
    by (rule conjunct1, rule conjunct2)
  from u have pw: "u_password (last st') = bcrypt_hash L (bcrypt_hash L (sb_password b) salt) salt'"
    and em: "u_email (last st') = email_setters (sb_email b)"
    by (simp_all add: new_User_def)
  from findOne_after_save [OF none app em] app pw show ?thesis by blast
qed

lemma ideal_bcrypt_rejects_hash_of_hash:
  assumes "\<forall>p q s. bcrypt_compare L q (bcrypt_hash L p s) \<longrightarrow> q = p"
    and "\<forall>p s. bcrypt_hash L p s \<noteq> p"
  shows "\<not> bcrypt_compare L pw (bcrypt_hash L (bcrypt_hash L pw salt) salt')"
  using assms by metis

text \<open>
  Claim C1. The claim: after a valid signup, a login with the same address and password
  succeeds. The signup of src/routes/auth.js hashes the password and hands the hash to
  the model, whose hook hashes it again: what is stored is the hash of the hash. For a
  hash without collisions that is never its own input, the login with the very password
  of the signup is then refused as \<open>Invalid credentials\<close>.
\<close>

theorem double_hash_blocks_login:
  assumes ok: "signup_msg L oid salt salt' b st = (Respond r, st')"
    and collision_free: "\<forall>p q s. bcrypt_compare L q (bcrypt_hash L p s) \<longrightarrow> q = p"
    and no_fixed_point: "\<forall>p s. bcrypt_hash L p s \<noteq> p"
  shows "login_id L E \<lparr>lb_email = sb_email b, lb_password = JStr (sb_password b)\<rparr> st'
           = NextErr (CustomError ''Invalid credentials'' 400)"
proof -
  from signup_msg_stores_hash_of_hash [OF ok] obtain u where
    pw: "u_password u = bcrypt_hash L (bcrypt_hash L (sb_password b) salt) salt'"
    and f: "User_findOne (sb_email b) st' = Some u"
    by blast
  from ideal_bcrypt_rejects_hash_of_hash [OF collision_free no_fixed_point]
  have "\<not> bcrypt_compare L (sb_password b) (u_password u)"
    by (simp add: pw)
  with f show ?thesis by (simp add: login_id_def bcrypt_compare_js_def)
qed

lemma demo_salt_length: "length (take 2 (salt @ ''..'')) = 2"
  by simp

lemma demo_bcrypt_ideal:
  "(\<forall>p q s. bcrypt_compare demo_libs q (bcrypt_hash demo_libs p s) \<longrightarrow> q = p)
   \<and> (\<forall>p s. bcrypt_hash demo_libs p s \<noteq> p)
   \<and> (\<forall>p s. bcrypt_compare demo_libs p (bcrypt_hash demo_libs p s))"
proof -
  have d: "drop 2 (take 2 (s @ ''..'') @ p) = p"
    and n: "take 2 (s @ ''..'') @ p \<noteq> p" for s p :: string
  proof -
    define xs where "xs = take 2 (s @ ''..'')"
    then have len: "length xs = 2" by simp
    from len show "drop 2 (take 2 (s @ ''..'') @ p) = p"
      unfolding xs_def [symmetric] by simp
    from len have "length (xs @ p) \<noteq> length p" by simp
    then show "take 2 (s @ ''..'') @ p \<noteq> p"
      unfolding xs_def [symmetric] by auto
  qed
  show ?thesis using d n by (auto simp add: demo_libs_def simp del: take_append)
qed

lemma alice_signup_msg:
  "signup_msg demo_libs ''u1'' ''ab'' ''cd'' alice_body [] =
     (Respond \<lparr>res_status = 201,
               res_body = JsObj [(''msg'', JsStr ''User registered successfully'')]\<rparr>,
      [\<lparr>u_id = ''u1'', u_name = ''Alice'', u_email = ''alice@x.com'',
        u_password = ''cdabsecret1'', u_role = ''candidate''\<rparr>])"
  by (simp add: auth_defs store_defs demo_defs)

theorem double_hash_blocks_login_witness:
  "fst (signup_msg demo_libs ''u1'' ''ab'' ''cd'' alice_body [])
     = Respond \<lparr>res_status = 201,
                res_body = JsObj [(''msg'', JsStr ''User registered successfully'')]\<rparr>
   \<and> sent (login_id demo_libs demo_env \<lparr>lb_email = ''alice@x.com'', lb_password = JStr ''secret1''\<rparr>
        (snd (signup_msg demo_libs ''u1'' ''ab'' ''cd'' alice_body [])))
     = invalid_credentials"
  using double_hash_blocks_login [OF alice_signup_msg, of demo_env] demo_bcrypt_ideal alice_signup_msg
  by (simp add: alice_body_def invalid_credentials_def err_defs errorHandler_def)

text \<open>
  The role-aware signup leaves the hashing to the hook: the hash of the password is
  stored, and the login accepts exactly what the comparison accepts against it.
\<close>

lemma signup_token_then_login:
  assumes ok: "signup_token L E oid salt b st = (Respond r, st')"
  shows "\<exists>u. st' = st @ [u] \<and> u_password u = bcrypt_hash L (sb_password b) salt
     \<and> (bcrypt_compare L (sb_password b) (u_password u) \<longrightarrow>
          login_token L E \<lparr>lb_email = sb_email b, lb_password = JStr (sb_password b)\<rparr> st'
            = Respond \<lparr>res_status = 200,
                       res_body = JsObj [(''token'', JsStr (jwt_encode L (issue_role L E u))),
                                         (''user'', user_json u)]\<rparr>)
     \<and> (\<forall>q. \<not> bcrypt_compare L q (u_password u) \<longrightarrow>
          login_token L E \<lparr>lb_email = sb_email b, lb_password = JStr q\<rparr> st'
            = NextErr (CustomError ''Invalid credentials'' 400))"
proof -
  from signup_token_Respond [OF ok]
  have none: "User_findOne (sb_email b) st = None"
    and sv: "User_save L salt
          (new_User oid (sb_name b) (sb_email b) (sb_password b) (assignedRole (sb_role b))) st
        = Inr (last st', st')"
    by simp_all
  from User_save_Inr [OF sv]
  have u: "last st' = (new_User oid (sb_name b) (sb_email b) (sb_password b) (assignedRole (sb_role b)))
              \<lparr>u_password := bcrypt_hash L (u_password (new_User oid (sb_name b) (sb_email b) (sb_password b) (assignedRole (sb_role b)))) salt\<rparr>"
    and app: "st' = st @ [last st']"
    by (rule conjunct1, rule conjunct2)
  from u have pw: "u_password (last st') = bcrypt_hash L (sb_password b) salt"
    and em: "u_email (last st') = email_setters (sb_email b)"
    by (simp_all add: new_User_def)
  from findOne_after_save [OF none app em]
  have f: "User_findOne (sb_email b) st' = Some (last st')" .
  show ?thesis
    using app pw f
    by (intro exI [of _ "last st'"])
      (simp add: login_token_def matchPassword_def bcrypt_compare_js_def Let_def)
qed

lemma signup_token_then_login_ideal:
  assumes ok: "signup_token L E oid salt b st = (Respond r, st')"
    and correct: "\<forall>p s. bcrypt_compare L p (bcrypt_hash L p s)"
    and collision_free: "\<forall>p q s. bcrypt_compare L q (bcrypt_hash L p s) \<longrightarrow> q = p"
    and no_fixed_point: "\<forall>p s. bcrypt_hash L p s \<noteq> p"
  shows "\<exists>u. st' = st @ [u] \<and> u_password u \<noteq> sb_password b
     \<and> login_token L E \<lparr>lb_email = sb_email b, lb_password = JStr (sb_password b)\<rparr> st'
         = Respond \<lparr>res_status = 200,
                    res_body = JsObj [(''token'', JsStr (jwt_encode L (issue_role L E u))),
                                      (''user'', user_json u)]\<rparr>
     \<and> (\<forall>q. q \<noteq> sb_password b \<longrightarrow>
          login_token L E \<lparr>lb_email = sb_email b, lb_password = JStr q\<rparr> st'
            = NextErr (CustomError ''Invalid credentials'' 400))"
proof -
  from signup_token_then_login [OF ok] obtain u where
    app: "st' = st @ [u]" and pw: "u_password u = bcrypt_hash L (sb_password b) salt"
    and yes: "bcrypt_compare L (sb_password b) (u_password u) \<longrightarrow>
          login_token L E \<lparr>lb_email = sb_email b, lb_password = JStr (sb_password b)\<rparr> st'
            = Respond \<lparr>res_status = 200,
                       res_body = JsObj [(''token'', JsStr (jwt_encode L (issue_role L E u))),
                                         (''user'', user_json u)]\<rparr>"
    and no: "\<forall>q. \<not> bcrypt_compare L q (u_password u) \<longrightarrow>
          login_token L E \<lparr>lb_email = sb_email b, lb_password = JStr q\<rparr> st'
            = NextErr (CustomError ''Invalid credentials'' 400)"
    by blast
  from pw no_fixed_point have "u_password u \<noteq> sb_password b" by simp
  moreover from pw correct yes
  have "login_token L E \<lparr>lb_email = sb_email b, lb_password = JStr (sb_password b)\<rparr> st'
         = Respond \<lparr>res_status = 200,
                    res_body = JsObj [(''token'', JsStr (jwt_encode L (issue_role L E u))),
                                      (''user'', user_json u)]\<rparr>"
    by simp
  moreover from pw collision_free no
  have "\<forall>q. q \<noteq> sb_password b \<longrightarrow>
          login_token L E \<lparr>lb_email = sb_email b, lb_password = JStr q\<rparr> st'
            = NextErr (CustomError ''Invalid credentials'' 400)"
    by metis
  ultimately show ?thesis using app by blast
qed

section \<open>Job update\<close>

lemmas update_defs = update_job_or_def update_job_nullish_def update_valid_def
  salary_isNumeric_def or_str_def
  or_num_def nullish_str_def nullish_num_def Let_def

text \<open>
  Claim C9. The claim: every field the body provides is taken over. The update handler of
  src/routes/jobs.js assigns \<^verbatim>\<open>salary || job.salary\<close>: a body that provides the
  salary 0 passes validation and is answered 200 with the job as it was, the old salary
  included.
\<close>

theorem update_or_ignores_salary_zero:
  assumes "user req = Some u" and "Job_findOne jid (userId u) st = Some job"
  shows "update_job_or req jid (no_update\<lparr>up_salary := Some 0\<rparr>) st
           = (Respond \<lparr>res_status = 200, res_body = job_json job\<rparr>, Job_save job st)"
  using assms by (simp add: update_defs no_update_def)

theorem update_or_ignores_salary_zero_witness:
  "user alice_req = Some (jwt_payload demo_jwt)
   \<and> Job_findOne ''j2'' ''u1'' [bob_job, alice_job] = Some alice_job
   \<and> j_salary alice_job = Some 40000
   \<and> update_job_or alice_req ''j2'' (no_update\<lparr>up_salary := Some 0\<rparr>) [bob_job, alice_job]
       = (Respond \<lparr>res_status = 200, res_body = job_json alice_job\<rparr>, [bob_job, alice_job])
   \<and> json_get ''salary'' (job_json alice_job) = Some (JsNum 40000)"
proof -
  have a: "user alice_req = Some (jwt_payload demo_jwt)" by (simp add: demo_defs)
  have b: "Job_findOne ''j2'' (userId (jwt_payload demo_jwt)) [bob_job, alice_job] = Some alice_job"
    by (simp add: Job_findOne_def demo_defs)
  have c: "Job_save alice_job [bob_job, alice_job] = [bob_job, alice_job]"
    by (simp add: Job_save_def demo_defs)
  from update_or_ignores_salary_zero [OF a b] a b c show ?thesis
    by (simp add: demo_defs job_json_def)
qed

text \<open>
  The handler of the second routes/jobs.js (\<^verbatim>\<open>??\<close>) takes over every provided
  field and leaves the rest, identifier, owner and creation time included; the one of
  src/routes/jobs.js does so unless the provided salary is 0.
\<close>

lemma update_nullish_frame:
  assumes "user req = Some u" and "Job_findOne jid (userId u) st = Some job" and "update_valid b"
  shows "\<exists>job'. update_job_nullish req jid b st
            = (Respond \<lparr>res_status = 200, res_body = job_json job'\<rparr>, Job_save job' st)
     \<and> j_title job' = (case up_title b of None \<Rightarrow> j_title job | Some x \<Rightarrow> x)
     \<and> j_company job' = (case up_company b of None \<Rightarrow> j_company job | Some x \<Rightarrow> x)
     \<and> j_description job' = (case up_description b of None \<Rightarrow> j_description job | Some x \<Rightarrow> x)
     \<and> j_location job' = (case up_location b of None \<Rightarrow> j_location job | Some x \<Rightarrow> x)
     \<and> j_salary job' = (case up_salary b of None \<Rightarrow> j_salary job | Some x \<Rightarrow> Some x)
     \<and> j_id job' = j_id job \<and> j_user job' = j_user job \<and> j_createdAt job' = j_createdAt job"
proof -
  define job' where "job' = job
     \<lparr>j_title := nullish_str (up_title b) (j_title job),
      j_company := nullish_str (up_company b) (j_company job),
      j_description := nullish_str (up_description b) (j_description job),
      j_location := nullish_str (up_location b) (j_location job),
      j_salary := nullish_num (up_salary b) (j_salary job)\<rparr>"
  from assms have "update_job_nullish req jid b st
            = (Respond \<lparr>res_status = 200, res_body = job_json job'\<rparr>, Job_save job' st)"
    by (simp add: update_job_nullish_def Let_def job'_def)
  then show ?thesis
    by (intro exI [of _ job']) (simp add: job'_def nullish_str_def nullish_num_def)
qed

lemma update_or_frame:
  assumes "user req = Some u" and "Job_findOne jid (userId u) st = Some job" and "update_valid b"
    and "up_salary b \<noteq> Some 0"
  shows "\<exists>job'. update_job_or req jid b st
            = (Respond \<lparr>res_status = 200, res_body = job_json job'\<rparr>, Job_save job' st)
     \<and> j_title job' = (case up_title b of None \<Rightarrow> j_title job | Some x \<Rightarrow> x)
     \<and> j_company job' = (case up_company b of None \<Rightarrow> j_company job | Some x \<Rightarrow> x)
     \<and> j_description job' = (case up_description b of None \<Rightarrow> j_description job | Some x \<Rightarrow> x)
     \<and> j_location job' = (case up_location b of None \<Rightarrow> j_location job | Some x \<Rightarrow> x)
     \<and> j_salary job' = (case up_salary b of None \<Rightarrow> j_salary job | Some x \<Rightarrow> Some x)
     \<and> j_id job' = j_id job \<and> j_user job' = j_user job \<and> j_createdAt job' = j_createdAt job"
proof -
  define job' where "job' = job
     \<lparr>j_title := or_str (up_title b) (j_title job),
      j_company := or_str (up_company b) (j_company job),
      j_description := or_str (up_description b) (j_description job),
      j_location := or_str (up_location b) (j_location job),
      j_salary := or_num (up_salary b) (j_salary job)\<rparr>"
  from assms have "update_job_or req jid b st
            = (Respond \<lparr>res_status = 200, res_body = job_json job'\<rparr>, Job_save job' st)"
    by (simp add: update_job_or_def Let_def job'_def)
  moreover from assms(3,4) have "j_title job' = (case up_title b of None \<Rightarrow> j_title job | Some x \<Rightarrow> x)"
    and "j_company job' = (case up_company b of None \<Rightarrow> j_company job | Some x \<Rightarrow> x)"
    and "j_description job' = (case up_description b of None \<Rightarrow> j_description job | Some x \<Rightarrow> x)"
    and "j_location job' = (case up_location b of None \<Rightarrow> j_location job | Some x \<Rightarrow> x)"
    and "j_salary job' = (case up_salary b of None \<Rightarrow> j_salary job | Some x \<Rightarrow> Some x)"
    by (auto simp add: job'_def update_valid_def or_str_def or_num_def split: option.splits)
  ultimately show ?thesis
    by (intro exI [of _ job']) (simp add: job'_def)
qed

section \<open>Jobs of other owners\<close>



lemma Job_findOneAndDelete_fst:
  "fst (Job_findOneAndDelete jid uid st) = Job_findOne jid uid st"
  by (induction st) (auto simp add: Job_findOne_def split: prod.splits)















end
